theory Spec2Isabelle
  imports Main "HOL-Library.AList"
begin

section \<open>The resilient request client (\<open>ApiClient\<close>) and its error logger\<close>

text \<open>
  The development embeds \<open>ApiClient\<close> (cache, retry loop, verb methods) and
  \<open>ErrorHandler.logError\<close>. Everything the TypeScript does beyond returning a value is
  explicit: the client's \<open>cache\<close> map, the wall clock read by \<open>Date.now()\<close>, the error
  log, the platform's timer queue, and two history lists that record every transport
  invocation and every argument passed to \<open>delay\<close>.

  Modelling boundaries.
  \<^item> JavaScript numbers are modelled as mathematical integers. Multiplying by a power
    of two is exact on doubles as long as the result stays finite, so
    \<open>retryDelay * Math.pow(2, attempt)\<close> is \<open>retryDelay * 2 ^ attempt\<close>.
  \<^item> One call runs its attempts sequentially; interleaving of several calls on one
    client is not modelled.
  \<^item> Values held in the cache are immutable JSON values; a caller mutating a returned
    object is outside the model.
  \<^item> An awaited promise always settles, except the transport's own, which may stay
    pending forever (and is then cut off by the deadline timer).
  \<^item> \<open>sleeps\<close> records the argument of each \<open>delay\<close>, the clock what was waited. The
    deadline of an attempt is taken to lie within the range of the platform's timers
    (1 to \<open>2^31 - 1\<close> ms), where a timer runs for the time it was asked to.
  \<^item> \<open>startCacheCleanup\<close> only schedules \<open>clearExpiredCache\<close> on an interval timer; the
    sweep is modelled, the schedule is not.
\<close>

subsection \<open>Values of the platform\<close>

datatype json =
    JNull
  | JBool bool
  | JNum int
  | JStr string
  | JArr "json list"
  | JObj "(string \<times> json) list"

text \<open>JavaScript truthiness of a JSON value, as the test \<open>data ? ... : ...\<close> reads it.\<close>

fun truthy :: "json \<Rightarrow> bool" where
  "truthy JNull = False"
| "truthy (JBool b) = b"
| "truthy (JNum n) = (n \<noteq> 0)"
| "truthy (JStr s) = (s \<noteq> [])"
| "truthy (JArr xs) = True"
| "truthy (JObj kvs) = True"

type_synonym Headers = "(string \<times> string) list"

text \<open>An \<open>Error\<close> object as the \<open>catch\<close> clause reads it: its \<open>name\<close> and \<open>message\<close>.\<close>

record js_error =
  err_name :: string
  err_message :: string

text \<open>\<open>RequestInit\<close>: the \<open>options\<close> argument; an absent property is \<open>None\<close> (or no header).\<close>

record RequestInit =
  init_method :: "string option"
  init_body :: "string option"
  init_headers :: Headers

text \<open>What \<open>response.json()\<close> settles to.\<close>

datatype body_outcome =
    Body json
  | BadJson string
  | BodyError string

text \<open>The platform's \<open>Response\<close>, as far as \<open>request\<close> reads it.\<close>

record Response =
  resp_ok :: bool
  resp_status :: int
  resp_statusText :: string
  resp_headers :: Headers
  resp_json :: body_outcome

text \<open>
  What the transport does with one invocation, left alone: it answers after some
  milliseconds, it rejects after some milliseconds (DNS or connection failure), or it
  never settles.
\<close>

datatype behaviour =
    Responds nat Response
  | Rejects nat string
  | NeverSettles

text \<open>
  The platform under the client. \<open>fetch\<close> is arbitrary: it may answer each invocation
  differently, so it is given the number of invocations made before this one.
  \<open>JSON_stringify\<close> is the platform's serialiser and \<open>abortMessage\<close> the message of the
  \<open>AbortError\<close> the platform raises when a request's signal is aborted.
\<close>

record platform =
  fetch :: "nat \<Rightarrow> string \<Rightarrow> RequestInit \<Rightarrow> behaviour"
  JSON_stringify :: "json \<Rightarrow> string"
  abortMessage :: string

subsection \<open>Data of the repository\<close>

text \<open>\<open>ApiConfig\<close> after the constructor has filled in the defaults.\<close>

record ApiConfig =
  baseURL :: string
  timeout :: int
  retries :: int
  retryDelay :: int

text \<open>\<open>ApiResponse\<close>.\<close>

record ApiResponse =
  data :: json
  status :: int
  statusText :: string
  headers :: Headers

text \<open>A value of the \<open>cache\<close> map: \<open>{ data, timestamp, ttl }\<close>.\<close>

record cache_entry =
  c_data :: json
  c_timestamp :: int
  c_ttl :: int

text \<open>
  The \<open>details\<close> objects that \<open>request\<close> passes to \<open>logError\<close>: \<open>{ attempt }\<close> or
  \<open>{ attempt, error }\<close>.
\<close>

datatype details = Details nat "string option"

text \<open>\<open>AppError\<close>.\<close>

record AppError =
  code :: string
  message :: string
  details :: details
  timestamp :: int

text \<open>
  The mutable state: the client's \<open>cache\<close> (a JavaScript \<open>Map\<close>, which keeps insertion
  order), the clock, \<open>errorHandler.errorLog\<close>, the pending timers of the platform (id and
  due time), and the two histories.
\<close>

record world =
  cache :: "(string \<times> cache_entry) list"
  now :: int
  errorLog :: "AppError list"
  timers :: "(nat \<times> int) list"
  next_timer :: nat
  fetch_calls :: "(string \<times> RequestInit) list"
  sleeps :: "int list"

subsection \<open>Timers and the clock\<close>

text \<open>\<open>ms\<close> milliseconds pass: the clock moves on and every timer that is due fires.\<close>

definition advance :: "int \<Rightarrow> world \<Rightarrow> world" where
  "advance ms w =
     w\<lparr>now := now w + ms,
       timers := filter (\<lambda>(i, due). now w + ms < due) (timers w)\<rparr>"

definition setTimeout :: "int \<Rightarrow> world \<Rightarrow> nat \<times> world" where
  "setTimeout ms w =
     (next_timer w,
      w\<lparr>timers := timers w @ [(next_timer w, now w + ms)],
        next_timer := Suc (next_timer w)\<rparr>)"

definition clearTimeout :: "nat \<Rightarrow> world \<Rightarrow> world" where
  "clearTimeout timeoutId w = w\<lparr>timers := filter (\<lambda>(i, due). i \<noteq> timeoutId) (timers w)\<rparr>"

text \<open>
  The time a timer asked to run for \<open>ms\<close> milliseconds really runs. The platform keeps the
  duration in a signed 32-bit integer: a request that is not between 1 and \<open>2^31 - 1\<close> is
  replaced by 1 (the rule of Node's timers; a browser takes 0 below the range and wraps
  above it, and agrees with Node inside the range).
\<close>

definition TIMEOUT_MAX :: int where
  "TIMEOUT_MAX = 2147483647"

definition timer_wait :: "int \<Rightarrow> int" where
  "timer_wait ms = (if 1 \<le> ms \<and> ms \<le> TIMEOUT_MAX then ms else 1)"

text \<open>
  \<open>delay\<close>: a promise resolved by a timer asked to run for \<open>ms\<close> milliseconds, awaited: the
  call returns when the timer has fired, which is after \<open>timer_wait ms\<close>. The argument is
  recorded in \<open>sleeps\<close>.
\<close>

definition delay :: "int \<Rightarrow> world \<Rightarrow> world" where
  "delay ms w =
     (let d = timer_wait ms
      in advance d (snd (setTimeout d (w\<lparr>sleeps := sleeps w @ [ms]\<rparr>))))"

subsection \<open>Printing a number\<close>

definition digit_char :: "nat \<Rightarrow> char" where
  "digit_char d = ''0123456789'' ! d"

fun nat_toString :: "nat \<Rightarrow> string" where
  "nat_toString n =
     (if n < 10 then [digit_char n] else nat_toString (n div 10) @ [digit_char (n mod 10)])"

declare nat_toString.simps [simp del]

definition number_toString :: "int \<Rightarrow> string" where
  "number_toString i = (if i < 0 then CHR ''-'' # nat_toString (nat (- i)) else nat_toString (nat i))"

subsection \<open>\<open>ErrorHandler.logError\<close>\<close>

text \<open>
  The entry is pushed on \<open>errorLog\<close>; the console output and the analytics call have no
  effect on the client.
\<close>

definition logError :: "string \<Rightarrow> string \<Rightarrow> details \<Rightarrow> world \<Rightarrow> world" where
  "logError c m d w =
     w\<lparr>errorLog := errorLog w @ [\<lparr>code = c, message = m, details = d, timestamp = now w\<rparr>]\<rparr>"

subsection \<open>The response cache\<close>

definition startsWith :: "string \<Rightarrow> string \<Rightarrow> bool" where
  "startsWith s p = (take (length p) s = p)"

definition getCacheKey :: "platform \<Rightarrow> string \<Rightarrow> RequestInit \<Rightarrow> string" where
  "getCacheKey p url options =
     (let method = (case init_method options of
                      None \<Rightarrow> ''GET''
                    | Some m \<Rightarrow> if m = [] then ''GET'' else m);
          body = (case init_body options of
                    None \<Rightarrow> []
                  | Some b \<Rightarrow> if b = [] then [] else JSON_stringify p (JStr b))
      in method @ '':'' @ url @ '':'' @ body)"

definition isCacheValid :: "string \<Rightarrow> world \<Rightarrow> bool" where
  "isCacheValid key w =
     (case map_of (cache w) key of
        None \<Rightarrow> False
      | Some cached \<Rightarrow> now w - c_timestamp cached < c_ttl cached)"

definition setCache :: "string \<Rightarrow> json \<Rightarrow> int \<Rightarrow> world \<Rightarrow> world" where
  "setCache key d ttl w =
     w\<lparr>cache := AList.update key \<lparr>c_data = d, c_timestamp = now w, c_ttl = ttl\<rparr> (cache w)\<rparr>"

definition clearExpiredCache :: "world \<Rightarrow> world" where
  "clearExpiredCache w =
     w\<lparr>cache := filter (\<lambda>(key, v). \<not> (now w - c_timestamp v \<ge> c_ttl v)) (cache w)\<rparr>"

subsection \<open>One attempt: the body of the \<open>try\<close> block\<close>

text \<open>The object spread \<open>{ ...a, ...b }\<close> on header objects.\<close>

definition spread :: "Headers \<Rightarrow> Headers \<Rightarrow> Headers" where
  "spread a b = fold (\<lambda>(k, v). AList.update k v) b a"

text \<open>The second argument of \<open>fetch\<close>: the options with the merged headers.\<close>

definition fetchInit :: "RequestInit \<Rightarrow> RequestInit" where
  "fetchInit options =
     options\<lparr>init_headers :=
       spread [(''Content-Type'', ''application/json'')] (init_headers options)\<rparr>"

text \<open>
  The deadline timer is set, the transport is invoked, and the first of the two to
  happen decides: if the transport has not settled when the timer fires (one that would
  settle at the very deadline counts as late), the timer's callback aborts the request
  and \<open>fetch\<close> rejects with the platform's \<open>AbortError\<close>; a rejection of the transport
  itself is a \<open>TypeError\<close>. \<open>clearTimeout\<close> is reached only when \<open>fetch\<close> has resolved.
  The result is \<open>Inr\<close> the returned \<open>ApiResponse\<close> or \<open>Inl\<close> the error thrown to the
  \<open>catch\<close> clause.
\<close>

definition aborted :: "platform \<Rightarrow> ApiConfig \<Rightarrow> world \<Rightarrow> (js_error + ApiResponse) \<times> world" where
  "aborted p cfg w =
     (Inl \<lparr>err_name = ''AbortError'', err_message = abortMessage p\<rparr>,
      advance (max 0 (timeout cfg)) w)"

definition attempt_once ::
  "platform \<Rightarrow> ApiConfig \<Rightarrow> string \<Rightarrow> RequestInit \<Rightarrow> bool \<Rightarrow> string \<Rightarrow> int \<Rightarrow> world
     \<Rightarrow> (js_error + ApiResponse) \<times> world" where
  "attempt_once p cfg fullUrl options useCache cacheKey cacheTTL w =
     (let (timeoutId, w1) = setTimeout (timeout cfg) w;
          init = fetchInit options;
          b = fetch p (length (fetch_calls w1)) fullUrl init;
          w2 = w1\<lparr>fetch_calls := fetch_calls w1 @ [(fullUrl, init)]\<rparr>
      in case b of
           Responds l response \<Rightarrow>
             if int l < timeout cfg then
               (let w3 = clearTimeout timeoutId (advance (int l) w2) in
                if \<not> resp_ok response then
                  (Inl \<lparr>err_name = ''Error'',
                        err_message = ''HTTP '' @ number_toString (resp_status response)
                                        @ '': '' @ resp_statusText response\<rparr>, w3)
                else
                  (case resp_json response of
                     Body d \<Rightarrow>
                       (Inr \<lparr>data = d, status = resp_status response,
                             statusText = resp_statusText response,
                             headers = resp_headers response\<rparr>,
                        if useCache \<and> init_method options = Some ''GET''
                        then setCache cacheKey d cacheTTL w3 else w3)
                   | BadJson m \<Rightarrow> (Inl \<lparr>err_name = ''SyntaxError'', err_message = m\<rparr>, w3)
                   | BodyError m \<Rightarrow> (Inl \<lparr>err_name = ''TypeError'', err_message = m\<rparr>, w3)))
             else aborted p cfg w2
         | Rejects l m \<Rightarrow>
             if int l < timeout cfg
             then (Inl \<lparr>err_name = ''TypeError'', err_message = m\<rparr>, advance (int l) w2)
             else aborted p cfg w2
         | NeverSettles \<Rightarrow> aborted p cfg w2)"

subsection \<open>The retry loop and \<open>request\<close>\<close>

text \<open>
  The \<open>catch\<close> clause: the failure is logged, then the loop decides whether to wait.
  \<open>request_loop\<close> is the \<open>for\<close> loop with the \<open>throw\<close> that follows it; \<open>attempt\<close> and
  \<open>lastError\<close> are its two variables.
\<close>

definition on_failure :: "ApiConfig \<Rightarrow> string \<Rightarrow> nat \<Rightarrow> js_error \<Rightarrow> world \<Rightarrow> world" where
  "on_failure cfg fullUrl attempt error w =
     (let w1 = (if err_name error = ''AbortError''
                then logError ''API_TIMEOUT'' (''Request timeout: '' @ fullUrl)
                       (Details attempt None) w
                else logError ''API_ERROR'' (''Request failed: '' @ fullUrl)
                       (Details attempt (Some (err_message error))) w)
      in if int attempt < retries cfg
         then delay (retryDelay cfg * 2 ^ attempt) w1
         else w1)"

function request_loop ::
  "platform \<Rightarrow> ApiConfig \<Rightarrow> string \<Rightarrow> RequestInit \<Rightarrow> bool \<Rightarrow> string \<Rightarrow> int
     \<Rightarrow> nat \<Rightarrow> js_error option \<Rightarrow> world \<Rightarrow> (js_error + ApiResponse) \<times> world" where
  "request_loop p cfg fullUrl options useCache cacheKey cacheTTL attempt lastError w =
     (if int attempt \<le> retries cfg then
        (case attempt_once p cfg fullUrl options useCache cacheKey cacheTTL w of
           (Inr r, w') \<Rightarrow> (Inr r, w')
         | (Inl error, w') \<Rightarrow>
             request_loop p cfg fullUrl options useCache cacheKey cacheTTL
               (Suc attempt) (Some error) (on_failure cfg fullUrl attempt error w'))
      else
        (Inl (case lastError of
                Some e \<Rightarrow> e
              | None \<Rightarrow> \<lparr>err_name = ''Error'',
                          err_message = ''Request failed after all retries''\<rparr>), w))"
  by pat_completeness auto
termination
  by (relation "measure (\<lambda>(p, cfg, fullUrl, options, useCache, cacheKey, cacheTTL, attempt, lastError, w).
        nat (retries cfg + 1 - int attempt))") auto

definition resolveUrl :: "ApiConfig \<Rightarrow> string \<Rightarrow> string" where
  "resolveUrl cfg url = (if startsWith url ''http'' then url else baseURL cfg @ url)"

definition request ::
  "platform \<Rightarrow> ApiConfig \<Rightarrow> string \<Rightarrow> RequestInit \<Rightarrow> bool \<Rightarrow> int \<Rightarrow> world
     \<Rightarrow> (js_error + ApiResponse) \<times> world" where
  "request p cfg url options useCache cacheTTL w =
     (let fullUrl = resolveUrl cfg url;
          cacheKey = getCacheKey p fullUrl options
      in if useCache \<and> init_method options = Some ''GET'' \<and> isCacheValid cacheKey w then
           (case map_of (cache w) cacheKey of
              Some cached \<Rightarrow>
                (Inr \<lparr>data = c_data cached, status = 200, statusText = ''OK (Cached)'',
                      headers = []\<rparr>, w)
            | None \<Rightarrow>
                (Inl \<lparr>err_name = ''TypeError'',
                      err_message = ''Cannot read properties of undefined''\<rparr>, w))
         else request_loop p cfg fullUrl options useCache cacheKey cacheTTL 0 None w)"

subsection \<open>The verb methods and the constructor\<close>

text \<open>
  \<open>request\<close>'s defaults are \<open>useCache = false\<close> and \<open>cacheTTL = 5 * 60 * 1000\<close>; \<open>get\<close>'s
  default is \<open>useCache = true\<close>. An omitted \<open>data\<close> argument is \<open>None\<close>.
\<close>

definition defaultTTL :: int where
  "defaultTTL = 5 * 60 * 1000"

definition get ::
  "platform \<Rightarrow> ApiConfig \<Rightarrow> string \<Rightarrow> bool \<Rightarrow> world \<Rightarrow> (js_error + ApiResponse) \<times> world" where
  "get p cfg url useCache w =
     request p cfg url \<lparr>init_method = Some ''GET'', init_body = None, init_headers = []\<rparr>
       useCache defaultTTL w"

definition stringified :: "platform \<Rightarrow> json option \<Rightarrow> string option" where
  "stringified p d =
     (case d of
        None \<Rightarrow> None
      | Some v \<Rightarrow> if truthy v then Some (JSON_stringify p v) else None)"

definition post ::
  "platform \<Rightarrow> ApiConfig \<Rightarrow> string \<Rightarrow> json option \<Rightarrow> world
     \<Rightarrow> (js_error + ApiResponse) \<times> world" where
  "post p cfg url d w =
     request p cfg url
       \<lparr>init_method = Some ''POST'', init_body = stringified p d, init_headers = []\<rparr>
       False defaultTTL w"

definition put ::
  "platform \<Rightarrow> ApiConfig \<Rightarrow> string \<Rightarrow> json option \<Rightarrow> world
     \<Rightarrow> (js_error + ApiResponse) \<times> world" where
  "put p cfg url d w =
     request p cfg url
       \<lparr>init_method = Some ''PUT'', init_body = stringified p d, init_headers = []\<rparr>
       False defaultTTL w"

definition delete ::
  "platform \<Rightarrow> ApiConfig \<Rightarrow> string \<Rightarrow> world \<Rightarrow> (js_error + ApiResponse) \<times> world" where
  "delete p cfg url w =
     request p cfg url \<lparr>init_method = Some ''DELETE'', init_body = None, init_headers = []\<rparr>
       False defaultTTL w"

text \<open>
  The constructor: \<open>{ timeout: 30000, retries: 3, retryDelay: 1000, ...config }\<close>, an
  absent optional property being \<open>None\<close>.
\<close>

definition new_ApiClient :: "string \<Rightarrow> int option \<Rightarrow> int option \<Rightarrow> int option \<Rightarrow> ApiConfig" where
  "new_ApiClient base t r d =
     \<lparr>baseURL = base,
      timeout = (case t of None \<Rightarrow> 30000 | Some v \<Rightarrow> v),
      retries = (case r of None \<Rightarrow> 3 | Some v \<Rightarrow> v),
      retryDelay = (case d of None \<Rightarrow> 1000 | Some v \<Rightarrow> v)\<rparr>"

text \<open>A freshly constructed client in a fresh page: nothing cached, logged or pending.\<close>

definition fresh :: "int \<Rightarrow> world" where
  "fresh t = \<lparr>cache = [], now = t, errorLog = [], timers = [], next_timer = 0,
              fetch_calls = [], sleeps = []\<rparr>"

subsection \<open>When an invocation of the transport makes the attempt succeed\<close>

text \<open>
  An attempt returns a response exactly when the transport answers before the deadline
  with an \<open>ok\<close> response whose body decodes (lemma \<open>attempt_once_result\<close> below).
\<close>

definition succeeds :: "ApiConfig \<Rightarrow> behaviour \<Rightarrow> bool" where
  "succeeds cfg b =
     (case b of
        Responds l r \<Rightarrow>
          int l < timeout cfg \<and> resp_ok r \<and>
          (case resp_json r of Body d \<Rightarrow> True | BadJson m \<Rightarrow> False | BodyError m \<Rightarrow> False)
      | Rejects l m \<Rightarrow> False
      | NeverSettles \<Rightarrow> False)"

text \<open>The transport lets the deadline pass.\<close>

definition times_out :: "ApiConfig \<Rightarrow> behaviour \<Rightarrow> bool" where
  "times_out cfg b =
     (case b of
        Responds l r \<Rightarrow> \<not> int l < timeout cfg
      | Rejects l m \<Rightarrow> \<not> int l < timeout cfg
      | NeverSettles \<Rightarrow> True)"

text \<open>The call is answered from the cache: the guard of \<open>request\<close>'s first \<open>if\<close>.\<close>

definition cache_hit :: "platform \<Rightarrow> ApiConfig \<Rightarrow> string \<Rightarrow> RequestInit \<Rightarrow> bool \<Rightarrow> world \<Rightarrow> bool" where
  "cache_hit p cfg url options useCache w =
     (useCache \<and> init_method options = Some ''GET'' \<and>
      isCacheValid (getCacheKey p (resolveUrl cfg url) options) w)"


subsection \<open>Example inputs\<close>

text \<open>
  A client with the constructor's defaults (timeout 30000, retries 3, retryDelay 1000),
  the options \<open>get\<close> passes, a transport whose every invocation is refused after 5 ms,
  and one that is refused on its first \<open>k\<close> invocations and then answers 201 after 7 ms.
\<close>

definition example_config :: ApiConfig where
  "example_config = new_ApiClient ''http://api.test'' None None None"

text \<open>The options of a call of \<open>request\<close> that passes none, or \<open>{}\<close>.\<close>

definition bare_options :: RequestInit where
  "bare_options = \<lparr>init_method = None, init_body = None, init_headers = []\<rparr>"

text \<open>A client that is to wait \<open>2^31\<close> ms before its one retry.\<close>

definition patient_config :: ApiConfig where
  "patient_config = new_ApiClient ''http://api.test'' None (Some 1) (Some 2147483648)"

definition get_options :: RequestInit where
  "get_options = \<lparr>init_method = Some ''GET'', init_body = None, init_headers = []\<rparr>"

definition created :: Response where
  "created = \<lparr>resp_ok = True, resp_status = 201, resp_statusText = ''Created'',
               resp_headers = [(''etag'', ''7'')], resp_json = Body (JNum 42)\<rparr>"

definition dead_platform :: platform where
  "dead_platform =
     \<lparr>fetch = (\<lambda>n url init. Rejects 5 ''Failed to fetch''),
      JSON_stringify = (\<lambda>v. ''null''),
      abortMessage = ''The operation was aborted.''\<rparr>"

definition flaky_platform :: "nat \<Rightarrow> platform" where
  "flaky_platform k =
     \<lparr>fetch = (\<lambda>n url init. if n < k then Rejects 5 ''Failed to fetch'' else Responds 7 created),
      JSON_stringify = (\<lambda>v. ''null''),
      abortMessage = ''The operation was aborted.''\<rparr>"

text \<open>
  A transport that answers 503 to every invocation, and one that never settles its first
  invocation and answers the later ones after 45 s.
\<close>

definition unavailable :: Response where
  "unavailable = \<lparr>resp_ok = False, resp_status = 503, resp_statusText = ''Service Unavailable'',
                   resp_headers = [], resp_json = BadJson ''Unexpected token''\<rparr>"

definition unavailable_platform :: platform where
  "unavailable_platform =
     \<lparr>fetch = (\<lambda>n url init. Responds 12 unavailable),
      JSON_stringify = (\<lambda>v. ''null''),
      abortMessage = ''The operation was aborted.''\<rparr>"

definition stalled_platform :: platform where
  "stalled_platform =
     \<lparr>fetch = (\<lambda>n url init. if n = 0 then NeverSettles else Responds 45000 created),
      JSON_stringify = (\<lambda>v. ''null''),
      abortMessage = ''The operation was aborted.''\<rparr>"

text \<open>
  A world in which the key of \<open>GET /models\<close> was stored at time 1000 with a TTL of
  300000 ms, looked at when the clock shows \<open>t\<close>.
\<close>

definition warm_world :: "int \<Rightarrow> world" where
  "warm_world t =
     (setCache ''GET:http://api.test/models:'' (JNum 42) 300000 (fresh 1000))\<lparr>now := t\<rparr>"

section \<open>Properties\<close>

subsection \<open>Which parts of the state each operation touches\<close>

text \<open>The definitions that a run on concrete inputs unfolds.\<close>

lemmas run_defs =
  request_def request_loop.simps attempt_once_def on_failure_def Let_def
  example_config_def new_ApiClient_def get_options_def fresh_def fetchInit_def spread_def
  getCacheKey_def resolveUrl_def startsWith_def isCacheValid_def
  setTimeout_def advance_def clearTimeout_def delay_def timer_wait_def TIMEOUT_MAX_def
  logError_def aborted_def setCache_def


lemma advance_fields [simp]:
  "cache (advance ms w) = cache w"
  "errorLog (advance ms w) = errorLog w"
  "fetch_calls (advance ms w) = fetch_calls w"
  "sleeps (advance ms w) = sleeps w"
  "next_timer (advance ms w) = next_timer w"
  "now (advance ms w) = now w + ms"
  by (simp_all add: advance_def)

lemma clearTimeout_fields [simp]:
  "cache (clearTimeout i w) = cache w"
  "errorLog (clearTimeout i w) = errorLog w"
  "fetch_calls (clearTimeout i w) = fetch_calls w"
  "sleeps (clearTimeout i w) = sleeps w"
  "next_timer (clearTimeout i w) = next_timer w"
  "now (clearTimeout i w) = now w"
  by (simp_all add: clearTimeout_def)

lemma setTimeout_fields [simp]:
  "fst (setTimeout ms w) = next_timer w"
  "cache (snd (setTimeout ms w)) = cache w"
  "errorLog (snd (setTimeout ms w)) = errorLog w"
  "fetch_calls (snd (setTimeout ms w)) = fetch_calls w"
  "sleeps (snd (setTimeout ms w)) = sleeps w"
  "now (snd (setTimeout ms w)) = now w"
  by (simp_all add: setTimeout_def)

lemma logError_fields [simp]:
  "cache (logError c m d w) = cache w"
  "errorLog (logError c m d w) =
     errorLog w @ [\<lparr>code = c, message = m, details = d, timestamp = now w\<rparr>]"
  "fetch_calls (logError c m d w) = fetch_calls w"
  "sleeps (logError c m d w) = sleeps w"
  "now (logError c m d w) = now w"
  by (simp_all add: logError_def)

lemma setCache_fields [simp]:
  "errorLog (setCache k d t w) = errorLog w"
  "fetch_calls (setCache k d t w) = fetch_calls w"
  "sleeps (setCache k d t w) = sleeps w"
  "now (setCache k d t w) = now w"
  "timers (setCache k d t w) = timers w"
  by (simp_all add: setCache_def)

lemma delay_fields [simp]:
  "cache (delay ms w) = cache w"
  "errorLog (delay ms w) = errorLog w"
  "fetch_calls (delay ms w) = fetch_calls w"
  "sleeps (delay ms w) = sleeps w @ [ms]"
  "now (delay ms w) = now w + timer_wait ms"
  by (simp_all add: delay_def setTimeout_def advance_def Let_def)

lemma aborted_fields [simp]:
  "fst (aborted p cfg w) = Inl \<lparr>err_name = ''AbortError'', err_message = abortMessage p\<rparr>"
  "cache (snd (aborted p cfg w)) = cache w"
  "errorLog (snd (aborted p cfg w)) = errorLog w"
  "fetch_calls (snd (aborted p cfg w)) = fetch_calls w"
  "sleeps (snd (aborted p cfg w)) = sleeps w"
  by (simp_all add: aborted_def)

lemma attempt_once_fetch_calls:
  "fetch_calls (snd (attempt_once p cfg fullUrl options useCache cacheKey cacheTTL w)) =
     fetch_calls w @ [(fullUrl, fetchInit options)]"
  by (simp add: attempt_once_def Let_def split_def split: behaviour.split body_outcome.split)

lemma attempt_once_errorLog:
  "errorLog (snd (attempt_once p cfg fullUrl options useCache cacheKey cacheTTL w)) = errorLog w"
  by (simp add: attempt_once_def Let_def split_def split: behaviour.split body_outcome.split)

lemma attempt_once_sleeps:
  "sleeps (snd (attempt_once p cfg fullUrl options useCache cacheKey cacheTTL w)) = sleeps w"
  by (simp add: attempt_once_def Let_def split_def split: behaviour.split body_outcome.split)

lemma attempt_once_result:
  "isl (fst (attempt_once p cfg fullUrl options useCache cacheKey cacheTTL w)) \<longleftrightarrow>
     \<not> succeeds cfg (fetch p (length (fetch_calls w)) fullUrl (fetchInit options))"
  by (simp add: attempt_once_def succeeds_def Let_def split_def split: behaviour.split body_outcome.split)

lemma attempt_once_cache_failure:
  "isl (fst (attempt_once p cfg fullUrl options useCache cacheKey cacheTTL w)) \<Longrightarrow>
   cache (snd (attempt_once p cfg fullUrl options useCache cacheKey cacheTTL w)) = cache w"
  by (auto simp add: attempt_once_def Let_def split_def split: behaviour.splits body_outcome.splits if_splits)

lemma attempt_once_cache_not_cacheable:
  "\<not> (useCache \<and> init_method options = Some ''GET'') \<Longrightarrow>
   cache (snd (attempt_once p cfg fullUrl options useCache cacheKey cacheTTL w)) = cache w"
  by (auto simp add: attempt_once_def Let_def split_def split: behaviour.splits body_outcome.splits if_splits)

lemma on_failure_fields [simp]:
  "cache (on_failure cfg fullUrl a e w) = cache w"
  "fetch_calls (on_failure cfg fullUrl a e w) = fetch_calls w"
  "sleeps (on_failure cfg fullUrl a e w) =
     sleeps w @ (if int a < retries cfg then [retryDelay cfg * 2 ^ a] else [])"
  "length (errorLog (on_failure cfg fullUrl a e w)) = Suc (length (errorLog w))"
  by (simp_all add: on_failure_def Let_def)


text \<open>The clock: an attempt never turns it back, and the \<open>catch\<close> clause moves it by its wait.\<close>

lemma timer_wait_in_range:
  "1 \<le> ms \<Longrightarrow> ms \<le> 2147483647 \<Longrightarrow> timer_wait ms = ms"
  by (simp add: timer_wait_def TIMEOUT_MAX_def)

lemma attempt_once_now:
  "now w \<le> now (snd (attempt_once p cfg fullUrl options useCache cacheKey cacheTTL w))"
  by (simp add: attempt_once_def Let_def split_def aborted_def
      split: behaviour.split body_outcome.split)

lemma on_failure_now:
  "now (on_failure cfg fullUrl a e w) =
     now w + (if int a < retries cfg then timer_wait (retryDelay cfg * 2 ^ a) else 0)"
  by (simp add: on_failure_def Let_def)

declare request_loop.simps [simp del]

lemma request_loop_exit:
  "\<not> int a \<le> retries cfg \<Longrightarrow>
   request_loop p cfg fullUrl options useCache cacheKey cacheTTL a lastError w =
     (Inl (case lastError of
             Some e \<Rightarrow> e
           | None \<Rightarrow> \<lparr>err_name = ''Error'', err_message = ''Request failed after all retries''\<rparr>), w)"
  by (simp add: request_loop.simps)

lemma request_loop_success:
  "int a \<le> retries cfg \<Longrightarrow>
   attempt_once p cfg fullUrl options useCache cacheKey cacheTTL w = (Inr r, w1) \<Longrightarrow>
   request_loop p cfg fullUrl options useCache cacheKey cacheTTL a lastError w = (Inr r, w1)"
  by (simp add: request_loop.simps)

lemma request_loop_failure:
  "int a \<le> retries cfg \<Longrightarrow>
   attempt_once p cfg fullUrl options useCache cacheKey cacheTTL w = (Inl e, w1) \<Longrightarrow>
   request_loop p cfg fullUrl options useCache cacheKey cacheTTL a lastError w =
     request_loop p cfg fullUrl options useCache cacheKey cacheTTL (Suc a) (Some e)
       (on_failure cfg fullUrl a e w1)"
  by (simp add: request_loop.simps)

lemma request_loop_cache:
  "isl (fst (request_loop p cfg fullUrl options useCache cacheKey cacheTTL a lastError w))
     \<or> \<not> (useCache \<and> init_method options = Some ''GET'') \<Longrightarrow>
   cache (snd (request_loop p cfg fullUrl options useCache cacheKey cacheTTL a lastError w)) = cache w"
proof (induction p cfg fullUrl options useCache cacheKey cacheTTL a lastError w
       rule: request_loop.induct)
  case (1 p cfg fullUrl options useCache cacheKey cacheTTL a lastError w)
  show ?case
  proof (cases "int a \<le> retries cfg")
    case False
    then show ?thesis by (simp add: request_loop_exit)
  next
    case True
    obtain x w1 where att: "attempt_once p cfg fullUrl options useCache cacheKey cacheTTL w = (x, w1)"
      by (cases "attempt_once p cfg fullUrl options useCache cacheKey cacheTTL w")
    show ?thesis
    proof (cases x)
      case (Inr r)
      with True att have "request_loop p cfg fullUrl options useCache cacheKey cacheTTL a lastError w = (Inr r, w1)"
        by (simp add: request_loop_success)
      with "1.prems" att attempt_once_cache_not_cacheable [of useCache options p cfg fullUrl cacheKey cacheTTL w]
      show ?thesis by auto
    next
      case (Inl e)
      with True att have step:
        "request_loop p cfg fullUrl options useCache cacheKey cacheTTL a lastError w =
           request_loop p cfg fullUrl options useCache cacheKey cacheTTL (Suc a) (Some e)
             (on_failure cfg fullUrl a e w1)"
        by (simp add: request_loop_failure)
      have "cache w1 = cache w"
        using attempt_once_cache_failure [of p cfg fullUrl options useCache cacheKey cacheTTL w] att Inl
        by simp
      moreover have "cache (snd (request_loop p cfg fullUrl options useCache cacheKey cacheTTL (Suc a)
                       (Some e) (on_failure cfg fullUrl a e w1))) = cache (on_failure cfg fullUrl a e w1)"
        using "1.IH" [OF True att [symmetric] Inl] "1.prems" step by simp
      ultimately show ?thesis using step by simp
    qed
  qed
qed



lemma request_loop_trace:
  "\<exists>k. fetch_calls (snd (request_loop p cfg fullUrl options useCache cacheKey cacheTTL a lastError w)) =
         fetch_calls w @ replicate k (fullUrl, fetchInit options)
     \<and> sleeps (snd (request_loop p cfg fullUrl options useCache cacheKey cacheTTL a lastError w)) =
         sleeps w @ map (\<lambda>i. retryDelay cfg * 2 ^ i) [a ..< a + k - 1]
     \<and> length (errorLog (snd (request_loop p cfg fullUrl options useCache cacheKey cacheTTL a lastError w)))
         + (if isl (fst (request_loop p cfg fullUrl options useCache cacheKey cacheTTL a lastError w))
            then 0 else 1) = length (errorLog w) + k
     \<and> (if int a \<le> retries cfg then 0 < k \<and> int (a + k) \<le> retries cfg + 1 else k = 0)
     \<and> (isl (fst (request_loop p cfg fullUrl options useCache cacheKey cacheTTL a lastError w))
          \<longrightarrow> int a \<le> retries cfg \<longrightarrow> int (a + k) = retries cfg + 1)"
proof (induction p cfg fullUrl options useCache cacheKey cacheTTL a lastError w
       rule: request_loop.induct)
  case (1 p cfg fullUrl options useCache cacheKey cacheTTL a lastError w)
  let ?L = "request_loop p cfg fullUrl options useCache cacheKey cacheTTL a lastError w"
  show ?case
  proof (cases "int a \<le> retries cfg")
    case False
    then have "?L = (Inl (case lastError of Some e \<Rightarrow> e
        | None \<Rightarrow> \<lparr>err_name = ''Error'', err_message = ''Request failed after all retries''\<rparr>), w)"
      by (rule request_loop_exit)
    with False show ?thesis by (intro exI [of _ 0]) simp
  next
    case True
    obtain x w1 where att: "attempt_once p cfg fullUrl options useCache cacheKey cacheTTL w = (x, w1)"
      by (cases "attempt_once p cfg fullUrl options useCache cacheKey cacheTTL w")
    have w1: "fetch_calls w1 = fetch_calls w @ [(fullUrl, fetchInit options)]"
      "sleeps w1 = sleeps w" "errorLog w1 = errorLog w"
      using att attempt_once_fetch_calls [of p cfg fullUrl options useCache cacheKey cacheTTL w]
        attempt_once_sleeps [of p cfg fullUrl options useCache cacheKey cacheTTL w]
        attempt_once_errorLog [of p cfg fullUrl options useCache cacheKey cacheTTL w]
      by simp_all
    show ?thesis
    proof (cases x)
      case (Inr r)
      with True att have "?L = (Inr r, w1)" by (simp add: request_loop_success)
      with True w1 show ?thesis by (intro exI [of _ 1]) simp
    next
      case (Inl e)
      let ?w2 = "on_failure cfg fullUrl a e w1"
      let ?R = "request_loop p cfg fullUrl options useCache cacheKey cacheTTL (Suc a) (Some e) ?w2"
      from Inl True att have step: "?L = ?R" by (simp add: request_loop_failure)
      from "1.IH" [OF True att [symmetric] Inl] obtain k where
        k1: "fetch_calls (snd ?R) = fetch_calls ?w2 @ replicate k (fullUrl, fetchInit options)" and
        k2: "sleeps (snd ?R) = sleeps ?w2 @ map (\<lambda>i. retryDelay cfg * 2 ^ i) [Suc a ..< Suc a + k - 1]" and
        k3: "length (errorLog (snd ?R)) + (if isl (fst ?R) then 0 else 1) = length (errorLog ?w2) + k" and
        k4: "if int (Suc a) \<le> retries cfg then 0 < k \<and> int (Suc a + k) \<le> retries cfg + 1 else k = 0" and
        k5: "isl (fst ?R) \<longrightarrow> int (Suc a) \<le> retries cfg \<longrightarrow> int (Suc a + k) = retries cfg + 1"
        by blast
      have c1: "fetch_calls (snd ?L) = fetch_calls w @ replicate (Suc k) (fullUrl, fetchInit options)"
        using k1 w1 step by (simp add: replicate_app_Cons_same)
      have c2: "sleeps (snd ?L) = sleeps w @ map (\<lambda>i. retryDelay cfg * 2 ^ i) [a ..< a + Suc k - 1]"
      proof (cases "int a < retries cfg")
        case True
        with k4 have "0 < k" by simp
        then have "[a ..< a + Suc k - 1] = a # [Suc a ..< Suc a + k - 1]"
          by (simp add: upt_conv_Cons)
        with True k2 w1 step show ?thesis by simp
      next
        case False
        with k4 have "k = 0" by simp
        with False k2 w1 step show ?thesis by simp
      qed
      have c3: "length (errorLog (snd ?L)) + (if isl (fst ?L) then 0 else 1) = length (errorLog w) + Suc k"
        using k3 w1 step by simp
      have c4: "0 < Suc k \<and> int (a + Suc k) \<le> retries cfg + 1"
        using k4 True by (auto split: if_splits)
      have c5: "isl (fst ?L) \<longrightarrow> int (a + Suc k) = retries cfg + 1"
        using k4 k5 True step by (auto split: if_splits)
      from c1 c2 c3 c4 c5 True show ?thesis by (intro exI [of _ "Suc k"]) simp
    qed
  qed
qed

text \<open>A call lasts at least as long as its waits together.\<close>

lemma request_loop_waited:
  "now w + sum_list (map timer_wait (drop (length (sleeps w))
       (sleeps (snd (request_loop p cfg fullUrl options useCache cacheKey cacheTTL a lastError w)))))
     \<le> now (snd (request_loop p cfg fullUrl options useCache cacheKey cacheTTL a lastError w))"
proof (induction p cfg fullUrl options useCache cacheKey cacheTTL a lastError w
       rule: request_loop.induct)
  case (1 p cfg fullUrl options useCache cacheKey cacheTTL a lastError w)
  let ?L = "request_loop p cfg fullUrl options useCache cacheKey cacheTTL a lastError w"
  show ?case
  proof (cases "int a \<le> retries cfg")
    case False
    then show ?thesis by (simp add: request_loop_exit)
  next
    case True
    obtain x w1 where att: "attempt_once p cfg fullUrl options useCache cacheKey cacheTTL w = (x, w1)"
      by (cases "attempt_once p cfg fullUrl options useCache cacheKey cacheTTL w")
    have w1: "sleeps w1 = sleeps w" "now w \<le> now w1"
      using att attempt_once_sleeps [of p cfg fullUrl options useCache cacheKey cacheTTL w]
        attempt_once_now [of w p cfg fullUrl options useCache cacheKey cacheTTL]
      by simp_all
    show ?thesis
    proof (cases x)
      case (Inr r)
      with True att have "?L = (Inr r, w1)" by (simp add: request_loop_success)
      with w1 show ?thesis by simp
    next
      case (Inl e)
      let ?w2 = "on_failure cfg fullUrl a e w1"
      let ?R = "request_loop p cfg fullUrl options useCache cacheKey cacheTTL (Suc a) (Some e) ?w2"
      let ?d = "if int a < retries cfg then [retryDelay cfg * 2 ^ a] else []"
      from Inl True att have step: "?L = ?R" by (simp add: request_loop_failure)
      from request_loop_trace [of p cfg fullUrl options useCache cacheKey cacheTTL "Suc a" "Some e" ?w2]
      obtain rest where rest: "sleeps (snd ?R) = sleeps ?w2 @ rest" by blast
      have s2: "sleeps ?w2 = sleeps w @ ?d" using w1 by simp
      have n2: "now ?w2 = now w1 + sum_list (map timer_wait ?d)"
        by (simp add: on_failure_now)
      from "1.IH" [OF True att [symmetric] Inl] rest
      have "now ?w2 + sum_list (map timer_wait rest) \<le> now (snd ?R)" by simp
      moreover have "drop (length (sleeps w)) (sleeps (snd ?R)) = ?d @ rest"
        using rest s2 by simp
      ultimately show ?thesis using step n2 w1(2) by simp
    qed
  qed
qed

lemma request_loop_all_fail:
  "\<forall>i. \<not> succeeds cfg (fetch p i fullUrl (fetchInit options)) \<Longrightarrow>
   isl (fst (request_loop p cfg fullUrl options useCache cacheKey cacheTTL a lastError w))"
proof (induction p cfg fullUrl options useCache cacheKey cacheTTL a lastError w
       rule: request_loop.induct)
  case (1 p cfg fullUrl options useCache cacheKey cacheTTL a lastError w)
  show ?case
  proof (cases "int a \<le> retries cfg")
    case False
    then show ?thesis by (simp add: request_loop_exit)
  next
    case True
    obtain x w1 where att: "attempt_once p cfg fullUrl options useCache cacheKey cacheTTL w = (x, w1)"
      by (cases "attempt_once p cfg fullUrl options useCache cacheKey cacheTTL w")
    with "1.prems" attempt_once_result [of p cfg fullUrl options useCache cacheKey cacheTTL w]
    obtain e where e: "x = Inl e" by (cases x) auto
    with True att "1.IH" [OF True att [symmetric] e "1.prems"] show ?thesis
      by (simp add: request_loop_failure)
  qed
qed



subsection \<open>The two branches of \<open>request\<close>\<close>

lemma request_hit:
  assumes "cache_hit p cfg url options useCache w"
  shows "\<exists>e. map_of (cache w) (getCacheKey p (resolveUrl cfg url) options) = Some e
           \<and> now w - c_timestamp e < c_ttl e
           \<and> request p cfg url options useCache cacheTTL w =
               (Inr \<lparr>data = c_data e, status = 200, statusText = ''OK (Cached)'', headers = []\<rparr>, w)"
  using assms
  by (auto simp add: cache_hit_def request_def isCacheValid_def Let_def split: option.splits)

lemma request_miss:
  "\<not> cache_hit p cfg url options useCache w \<Longrightarrow>
   request p cfg url options useCache cacheTTL w =
     request_loop p cfg (resolveUrl cfg url) options useCache
       (getCacheKey p (resolveUrl cfg url) options) cacheTTL 0 None w"
  by (auto simp add: cache_hit_def request_def Let_def)

lemma warm_world_fields:
  "cache (warm_world t) =
     [(''GET:http://api.test/models:'', \<lparr>c_data = JNum 42, c_timestamp = 1000, c_ttl = 300000\<rparr>)]"
  "now (warm_world t) = t"
  "getCacheKey p (resolveUrl example_config ''/models'') get_options = ''GET:http://api.test/models:''"
  by (simp_all add: warm_world_def setCache_def fresh_def getCacheKey_def resolveUrl_def
      startsWith_def example_config_def new_ApiClient_def get_options_def)

subsection \<open>The response cache\<close>

text \<open>
  The sweep removes exactly the entries that a lookup already treats as absent (the keys
  of a \<open>Map\<close> are distinct).
\<close>

lemma clearExpiredCache_lookup:
  assumes "distinct (map fst (cache w))"
  shows "map_of (cache (clearExpiredCache w)) key =
           (if isCacheValid key w then map_of (cache w) key else None)"
proof -
  have "map_of (filter (\<lambda>(k, v). P v) al) key =
          (case map_of al key of None \<Rightarrow> None | Some v \<Rightarrow> if P v then Some v else None)"
    if "distinct (map fst al)" for al :: "(string \<times> cache_entry) list" and P
    using that
    by (induction al) (auto split: option.splits simp: map_of_eq_None_iff image_iff)
  from this [OF assms, of "\<lambda>v. \<not> (now w - c_timestamp v \<ge> c_ttl v)"]
  show ?thesis
    by (auto simp add: clearExpiredCache_def isCacheValid_def split: option.splits)
qed

text \<open>
  The guard of the cache compares \<open>options.method\<close> with \<open>GET\<close> itself, whereas the key
  is built with \<open>GET\<close> standing in for an omitted method: a call of \<open>request\<close> that leaves
  the method out shares its key with the explicit GET and is never answered from the
  cache.
\<close>

lemma request_without_method_misses:
  assumes "init_method options = None"
  shows "getCacheKey p url options = getCacheKey p url (options\<lparr>init_method := Some ''GET''\<rparr>)"
    and "\<not> cache_hit p cfg url options useCache w"
  using assms by (simp_all add: getCacheKey_def cache_hit_def)

text \<open>
  Claim C1, as stated, covers every cacheable GET request whose key was stored within its
  TTL. Amended: a call with \<open>useCache\<close> set and \<open>options.method\<close> equal to \<open>GET\<close> whose key
  holds an entry that is still within its TTL returns that entry's value as the response
  data, and the call leaves the whole state as it was: in particular the history of
  transport invocations is unchanged, so the transport was not invoked.
\<close>

theorem cache_hit_avoids_network:
  assumes "useCache" and "init_method options = Some ''GET''"
    and "map_of (cache w) (getCacheKey p (resolveUrl cfg url) options) = Some e"
    and "now w - c_timestamp e < c_ttl e"
  shows "snd (request p cfg url options useCache cacheTTL w) = w
       \<and> fetch_calls (snd (request p cfg url options useCache cacheTTL w)) = fetch_calls w
       \<and> (\<exists>r. fst (request p cfg url options useCache cacheTTL w) = Inr r \<and> data r = c_data e)"
proof -
  from assms have "cache_hit p cfg url options useCache w"
    by (simp add: cache_hit_def isCacheValid_def)
  from request_hit [OF this, of cacheTTL] assms(3) show ?thesis by auto
qed

theorem cache_hit_avoids_network_witness:
  "snd (request dead_platform example_config ''/models'' get_options True defaultTTL
          (warm_world 300999)) = warm_world 300999
   \<and> (\<exists>r. fst (request dead_platform example_config ''/models'' get_options True defaultTTL
          (warm_world 300999)) = Inr r \<and> data r = JNum 42)"
  using cache_hit_avoids_network [of True get_options "warm_world 300999"
      dead_platform example_config "''/models''"
      "\<lparr>c_data = JNum 42, c_timestamp = 1000, c_ttl = 300000\<rparr>" defaultTTL]
  by (simp add: warm_world_fields) (simp add: get_options_def)

text \<open>
  Claim C1 as stated fails for a GET request that does not name its method: the call
  \<open>request('/models', {}, true)\<close> has the key of \<open>get('/models')\<close>, the entry under that key is
  live, and yet the transport is invoked, here four times by a call that fails.
\<close>

theorem cache_hit_avoids_network_counterexample:
  "getCacheKey dead_platform (resolveUrl example_config ''/models'') bare_options =
     getCacheKey dead_platform (resolveUrl example_config ''/models'') get_options
   \<and> isCacheValid (getCacheKey dead_platform (resolveUrl example_config ''/models'') bare_options)
         (warm_world 2000)
   \<and> fetch_calls (warm_world 2000) = []
   \<and> length (fetch_calls (snd (request dead_platform example_config ''/models'' bare_options True
                 defaultTTL (warm_world 2000)))) = 4
   \<and> isl (fst (request dead_platform example_config ''/models'' bare_options True
                 defaultTTL (warm_world 2000)))"
  by (simp add: run_defs bare_options_def warm_world_def dead_platform_def)

text \<open>
  Claim C10. On a cache hit the response is built anew: status 200, status text
  \<open>OK (Cached)\<close> and empty headers, whatever the response that was fetched originally
  carried; only \<open>data\<close> comes from the stored entry.
\<close>

theorem cache_hit_response_shape:
  assumes "cache_hit p cfg url options useCache w"
  shows "\<exists>e. map_of (cache w) (getCacheKey p (resolveUrl cfg url) options) = Some e
           \<and> fst (request p cfg url options useCache cacheTTL w) =
               Inr \<lparr>data = c_data e, status = 200, statusText = ''OK (Cached)'', headers = []\<rparr>"
  using request_hit [OF assms, of cacheTTL] by auto

theorem cache_hit_response_shape_witness:
  "cache_hit (flaky_platform 0) example_config ''/models'' get_options True (warm_world 2000)
   \<and> fst (request (flaky_platform 0) example_config ''/models'' get_options True defaultTTL
            (warm_world 2000)) =
       Inr \<lparr>data = JNum 42, status = 200, statusText = ''OK (Cached)'', headers = []\<rparr>"
  using cache_hit_response_shape [of "flaky_platform 0" example_config "''/models''"
      get_options True "warm_world 2000" defaultTTL]
  by (simp add: cache_hit_def isCacheValid_def warm_world_fields) (simp add: get_options_def)

text \<open>
  Claim C4. An entry stored at \<open>c_timestamp\<close> with time-to-live \<open>c_ttl\<close> is live exactly
  while \<open>now - c_timestamp < c_ttl\<close>; a lookup at \<open>c_timestamp + c_ttl\<close> or later is a miss.
\<close>

theorem cache_expiry:
  assumes "map_of (cache w) key = Some e"
  shows "(isCacheValid key w \<longleftrightarrow> now w - c_timestamp e < c_ttl e)
       \<and> (c_timestamp e + c_ttl e \<le> now w \<longrightarrow> \<not> isCacheValid key w)"
  using assms by (auto simp add: isCacheValid_def)

theorem cache_expiry_witness:
  "isCacheValid ''GET:http://api.test/models:'' (warm_world 300999)
   \<and> \<not> isCacheValid ''GET:http://api.test/models:'' (warm_world 301000)"
  using cache_expiry [of "warm_world 300999" "''GET:http://api.test/models:''"
      "\<lparr>c_data = JNum 42, c_timestamp = 1000, c_ttl = 300000\<rparr>"]
    cache_expiry [of "warm_world 301000" "''GET:http://api.test/models:''"
      "\<lparr>c_data = JNum 42, c_timestamp = 1000, c_ttl = 300000\<rparr>"]
  by (simp add: warm_world_fields)

text \<open>
  Claim C6. The cache changes only in a call that has \<open>useCache\<close> set and method \<open>GET\<close>
  and that returns a response: a call that is not cacheable, or that fails, leaves the
  cache as it was, and so do \<open>post\<close>, \<open>put\<close> and \<open>delete\<close> whatever the cache holds.
\<close>

theorem cache_only_after_cacheable_success:
  "(\<not> (useCache \<and> init_method options = Some ''GET'')
      \<or> isl (fst (request p cfg url options useCache cacheTTL w))
    \<longrightarrow> cache (snd (request p cfg url options useCache cacheTTL w)) = cache w)
   \<and> cache (snd (post p cfg url d w)) = cache w
   \<and> cache (snd (put p cfg url d w)) = cache w
   \<and> cache (snd (delete p cfg url w)) = cache w"
proof -
  have gen: "cache (snd (request p cfg url opts uc ttl w)) = cache w"
    if "\<not> (uc \<and> init_method opts = Some ''GET'') \<or> isl (fst (request p cfg url opts uc ttl w))"
    for opts uc ttl
  proof (cases "cache_hit p cfg url opts uc w")
    case True
    from request_hit [OF this, of ttl] show ?thesis by auto
  next
    case False
    then have eq: "request p cfg url opts uc ttl w =
        request_loop p cfg (resolveUrl cfg url) opts uc
          (getCacheKey p (resolveUrl cfg url) opts) ttl 0 None w"
      by (rule request_miss)
    with that have "isl (fst (request_loop p cfg (resolveUrl cfg url) opts uc
          (getCacheKey p (resolveUrl cfg url) opts) ttl 0 None w))
        \<or> \<not> (uc \<and> init_method opts = Some ''GET'')"
      by auto
    then have "cache (snd (request_loop p cfg (resolveUrl cfg url) opts uc
          (getCacheKey p (resolveUrl cfg url) opts) ttl 0 None w)) = cache w"
      by (rule request_loop_cache)
    with eq show ?thesis by simp
  qed
  show ?thesis
    by (intro conjI impI gen) (simp_all add: gen post_def put_def delete_def)
qed

theorem cache_only_after_cacheable_success_witness:
  "cache (snd (request (flaky_platform 0) example_config ''/models''
                 \<lparr>init_method = Some ''POST'', init_body = None, init_headers = []\<rparr>
                 False defaultTTL (warm_world 2000))) = cache (warm_world 2000)
   \<and> cache (snd (post (flaky_platform 0) example_config ''/models'' (Some (JNum 1))
                 (warm_world 2000))) = cache (warm_world 2000)"
  using cache_only_after_cacheable_success [of False
      "\<lparr>init_method = Some ''POST'', init_body = None, init_headers = []\<rparr>"
      "flaky_platform 0" example_config "''/models''" defaultTTL "warm_world 2000" "Some (JNum 1)"]
  by simp

subsection \<open>A single attempt\<close>

lemma attempt_once_error:
  assumes "fst (attempt_once p cfg fullUrl options useCache cacheKey cacheTTL w) = Inl e"
    and "b = fetch p (length (fetch_calls w)) fullUrl (fetchInit options)"
  shows "(times_out cfg b \<longrightarrow> e = \<lparr>err_name = ''AbortError'', err_message = abortMessage p\<rparr>)
       \<and> (\<forall>l m. b = Rejects l m \<and> int l < timeout cfg
             \<longrightarrow> e = \<lparr>err_name = ''TypeError'', err_message = m\<rparr>)
       \<and> (\<forall>l r. b = Responds l r \<and> int l < timeout cfg \<and> \<not> resp_ok r
             \<longrightarrow> e = \<lparr>err_name = ''Error'',
                       err_message = ''HTTP '' @ number_toString (resp_status r) @ '': ''
                                       @ resp_statusText r\<rparr>)"
  using assms
  by (auto simp add: attempt_once_def times_out_def Let_def split_def
      split: behaviour.splits body_outcome.splits if_splits)

lemma attempt_once_timeout:
  assumes "times_out cfg (fetch p (length (fetch_calls w)) fullUrl (fetchInit options))"
  shows "fst (attempt_once p cfg fullUrl options useCache cacheKey cacheTTL w) =
           Inl \<lparr>err_name = ''AbortError'', err_message = abortMessage p\<rparr>"
    and "now (snd (attempt_once p cfg fullUrl options useCache cacheKey cacheTTL w)) =
           now w + max 0 (timeout cfg)"
  using assms
  by (auto simp add: attempt_once_def times_out_def aborted_def Let_def split_def
      split: behaviour.splits body_outcome.splits if_splits)

lemma attempt_once_success:
  assumes "fetch p (length (fetch_calls w)) fullUrl (fetchInit options) = Responds l r"
    and "int l < timeout cfg" and "resp_ok r" and "resp_json r = Body d"
  shows "fst (attempt_once p cfg fullUrl options useCache cacheKey cacheTTL w) =
           Inr \<lparr>data = d, status = resp_status r, statusText = resp_statusText r,
                headers = resp_headers r\<rparr>"
  using assms by (simp add: attempt_once_def Let_def split_def)

lemma attempt_once_stores:
  assumes "attempt_once p cfg fullUrl options useCache cacheKey cacheTTL w = (Inr r, w1)"
    and "useCache" and "init_method options = Some ''GET''"
  shows "map_of (cache w1) cacheKey =
           Some \<lparr>c_data = data r, c_timestamp = now w1, c_ttl = cacheTTL\<rparr>"
  using assms
  by (auto simp add: attempt_once_def Let_def split_def setCache_def update_conv' aborted_def
      split: behaviour.splits body_outcome.splits if_splits)

lemma attempt_once_rejected_timer:
  assumes "fetch p (length (fetch_calls w)) fullUrl (fetchInit options) = Rejects l m"
    and "int l < timeout cfg"
  shows "(next_timer w, now w + timeout cfg)
           \<in> set (timers (snd (attempt_once p cfg fullUrl options useCache cacheKey cacheTTL w)))"
    and "now (snd (attempt_once p cfg fullUrl options useCache cacheKey cacheTTL w))
           < now w + timeout cfg"
  using assms
  by (simp_all add: attempt_once_def Let_def split_def setTimeout_def advance_def)

text \<open>
  On the other paths the attempt's own timer is gone when the attempt ends: it was cleared
  after \<open>fetch\<close> resolved, or it has fired.
\<close>

lemma attempt_once_timer_released:
  assumes "next_timer w \<notin> fst ` set (timers w)"
    and "b = fetch p (length (fetch_calls w)) fullUrl (fetchInit options)"
    and "times_out cfg b \<or> (\<exists>l r. b = Responds l r)"
  shows "next_timer w \<notin> fst ` set (timers (snd (attempt_once p cfg fullUrl options useCache cacheKey cacheTTL w)))"
  using assms
  by (auto simp add: attempt_once_def Let_def split_def setTimeout_def advance_def clearTimeout_def
      aborted_def times_out_def setCache_def
      split: behaviour.splits body_outcome.splits if_splits)

lemma on_failure_errorLog:
  "errorLog (on_failure cfg fullUrl a e w) =
     errorLog w @
       [if err_name e = ''AbortError''
        then \<lparr>code = ''API_TIMEOUT'', message = ''Request timeout: '' @ fullUrl,
              details = Details a None, timestamp = now w\<rparr>
        else \<lparr>code = ''API_ERROR'', message = ''Request failed: '' @ fullUrl,
              details = Details a (Some (err_message e)), timestamp = now w\<rparr>]"
  by (simp add: on_failure_def Let_def)

subsection \<open>Steps of the retry loop\<close>

lemma request_loop_step_failure:
  assumes "int a \<le> retries cfg"
    and "\<not> succeeds cfg (fetch p (length (fetch_calls w)) fullUrl (fetchInit options))"
  shows "\<exists>e w1. request_loop p cfg fullUrl options useCache cacheKey cacheTTL a lastError w =
                  request_loop p cfg fullUrl options useCache cacheKey cacheTTL (Suc a) (Some e) w1
               \<and> length (fetch_calls w1) = Suc (length (fetch_calls w))
               \<and> length (errorLog w1) = Suc (length (errorLog w))"
proof -
  obtain x w0 where att: "attempt_once p cfg fullUrl options useCache cacheKey cacheTTL w = (x, w0)"
    by (cases "attempt_once p cfg fullUrl options useCache cacheKey cacheTTL w")
  with assms(2) attempt_once_result [of p cfg fullUrl options useCache cacheKey cacheTTL w]
  obtain e where e: "x = Inl e" by (cases x) auto
  have "length (fetch_calls w0) = Suc (length (fetch_calls w))" "errorLog w0 = errorLog w"
    using att attempt_once_fetch_calls [of p cfg fullUrl options useCache cacheKey cacheTTL w]
      attempt_once_errorLog [of p cfg fullUrl options useCache cacheKey cacheTTL w]
    by simp_all
  with att e assms(1) show ?thesis
    by (intro exI [of _ e] exI [of _ "on_failure cfg fullUrl a e w0"])
       (simp add: request_loop_failure)
qed

lemma request_loop_step_success:
  assumes "int a \<le> retries cfg"
    and "fetch p (length (fetch_calls w)) fullUrl (fetchInit options) = Responds l r"
    and "int l < timeout cfg" and "resp_ok r" and "resp_json r = Body d"
  shows "fst (request_loop p cfg fullUrl options useCache cacheKey cacheTTL a lastError w) =
           Inr \<lparr>data = d, status = resp_status r, statusText = resp_statusText r,
                headers = resp_headers r\<rparr>"
    and "errorLog (snd (request_loop p cfg fullUrl options useCache cacheKey cacheTTL a lastError w)) =
           errorLog w"
proof -
  obtain x w0 where att: "attempt_once p cfg fullUrl options useCache cacheKey cacheTTL w = (x, w0)"
    by (cases "attempt_once p cfg fullUrl options useCache cacheKey cacheTTL w")
  with attempt_once_success [OF assms(2-5), of useCache cacheKey cacheTTL]
  have x: "x = Inr \<lparr>data = d, status = resp_status r, statusText = resp_statusText r,
                headers = resp_headers r\<rparr>" by simp
  have "errorLog w0 = errorLog w"
    using att attempt_once_errorLog [of p cfg fullUrl options useCache cacheKey cacheTTL w] by simp
  with att x assms(1)
  show "fst (request_loop p cfg fullUrl options useCache cacheKey cacheTTL a lastError w) =
           Inr \<lparr>data = d, status = resp_status r, statusText = resp_statusText r,
                headers = resp_headers r\<rparr>"
    and "errorLog (snd (request_loop p cfg fullUrl options useCache cacheKey cacheTTL a lastError w)) =
           errorLog w"
    by (simp_all add: request_loop_success)
qed

lemma request_loop_last_error:
  "int a \<le> retries cfg \<Longrightarrow>
   fst (request_loop p cfg fullUrl options useCache cacheKey cacheTTL a lastError w) = Inl e \<Longrightarrow>
   \<exists>w0. length (fetch_calls w0) = length (fetch_calls w) + nat (retries cfg - int a)
       \<and> fst (attempt_once p cfg fullUrl options useCache cacheKey cacheTTL w0) = Inl e"
proof (induction p cfg fullUrl options useCache cacheKey cacheTTL a lastError w
       rule: request_loop.induct)
  case (1 p cfg fullUrl options useCache cacheKey cacheTTL a lastError w)
  obtain x w1 where att: "attempt_once p cfg fullUrl options useCache cacheKey cacheTTL w = (x, w1)"
    by (cases "attempt_once p cfg fullUrl options useCache cacheKey cacheTTL w")
  have inl: "\<exists>e1. x = Inl e1"
  proof (cases x)
    case (Inr r)
    with att "1.prems" show ?thesis by (simp add: request_loop_success)
  qed simp
  then obtain e1 where e1: "x = Inl e1" ..
  let ?w2 = "on_failure cfg fullUrl a e1 w1"
  have step: "request_loop p cfg fullUrl options useCache cacheKey cacheTTL a lastError w =
      request_loop p cfg fullUrl options useCache cacheKey cacheTTL (Suc a) (Some e1) ?w2"
    using att e1 "1.prems"(1) by (simp add: request_loop_failure)
  have len: "length (fetch_calls ?w2) = Suc (length (fetch_calls w))"
    using att attempt_once_fetch_calls [of p cfg fullUrl options useCache cacheKey cacheTTL w]
    by simp
  show ?case
  proof (cases "int (Suc a) \<le> retries cfg")
    case True
    from "1.IH" [OF "1.prems"(1) att [symmetric] e1 True] step "1.prems"(2)
    obtain w0 where
      "length (fetch_calls w0) = length (fetch_calls ?w2) + nat (retries cfg - int (Suc a))"
      "fst (attempt_once p cfg fullUrl options useCache cacheKey cacheTTL w0) = Inl e"
      by auto
    with len True show ?thesis
      by (intro exI [of _ w0]) (simp add: nat_diff_distrib)
  next
    case False
    with step "1.prems"(2) have "e = e1" by (simp add: request_loop_exit)
    moreover from False "1.prems"(1) have "retries cfg = int a" by simp
    ultimately show ?thesis using att e1 by (intro exI [of _ w]) simp
  qed
qed

lemma request_loop_stores:
  "useCache \<Longrightarrow> init_method options = Some ''GET'' \<Longrightarrow>
   request_loop p cfg fullUrl options useCache cacheKey cacheTTL a lastError w = (Inr r, w1) \<Longrightarrow>
   map_of (cache w1) cacheKey = Some \<lparr>c_data = data r, c_timestamp = now w1, c_ttl = cacheTTL\<rparr>"
proof (induction p cfg fullUrl options useCache cacheKey cacheTTL a lastError w
       rule: request_loop.induct)
  case (1 p cfg fullUrl options useCache cacheKey cacheTTL a lastError w)
  from "1.prems"(3) have le: "int a \<le> retries cfg"
    by (cases "int a \<le> retries cfg") (simp_all add: request_loop_exit)
  obtain x w0 where att: "attempt_once p cfg fullUrl options useCache cacheKey cacheTTL w = (x, w0)"
    by (cases "attempt_once p cfg fullUrl options useCache cacheKey cacheTTL w")
  show ?case
  proof (cases x)
    case (Inr r')
    with le att "1.prems"(3) have "r' = r" "w0 = w1" by (simp_all add: request_loop_success)
    with att Inr "1.prems"(1,2) show ?thesis by (simp add: attempt_once_stores)
  next
    case (Inl e)
    with le att "1.prems"(3)
    have "request_loop p cfg fullUrl options useCache cacheKey cacheTTL (Suc a) (Some e)
            (on_failure cfg fullUrl a e w0) = (Inr r, w1)"
      by (simp add: request_loop_failure)
    with "1.IH" [OF le att [symmetric] Inl "1.prems"(1,2)] show ?thesis by simp
  qed
qed

lemma request_report_count:
  assumes "\<not> cache_hit p cfg url options useCache w"
  shows "length (errorLog (snd (request p cfg url options useCache cacheTTL w)))
          + (if isl (fst (request p cfg url options useCache cacheTTL w)) then 0 else 1) =
        length (errorLog w)
          + (length (fetch_calls (snd (request p cfg url options useCache cacheTTL w)))
             - length (fetch_calls w))"
proof -
  let ?U = "resolveUrl cfg url"
  let ?K = "getCacheKey p ?U options"
  let ?L = "request_loop p cfg ?U options useCache ?K cacheTTL 0 None w"
  have eq: "request p cfg url options useCache cacheTTL w = ?L"
    using assms by (rule request_miss)
  from request_loop_trace [of p cfg ?U options useCache ?K cacheTTL 0 None w]
  obtain k where
    "fetch_calls (snd ?L) = fetch_calls w @ replicate k (?U, fetchInit options)"
    "length (errorLog (snd ?L)) + (if isl (fst ?L) then 0 else 1) = length (errorLog w) + k"
    by blast
  with eq show ?thesis by simp
qed

lemma request_two_failures_then_success:
  assumes "\<not> cache_hit p cfg url options useCache w" and "2 \<le> retries cfg"
    and "\<not> succeeds cfg (fetch p (length (fetch_calls w)) (resolveUrl cfg url) (fetchInit options))"
    and "\<not> succeeds cfg (fetch p (length (fetch_calls w) + 1) (resolveUrl cfg url) (fetchInit options))"
    and "fetch p (length (fetch_calls w) + 2) (resolveUrl cfg url) (fetchInit options) = Responds l r"
    and "int l < timeout cfg" and "resp_ok r" and "resp_json r = Body d"
  shows "fst (request p cfg url options useCache cacheTTL w) =
          Inr \<lparr>data = d, status = resp_status r, statusText = resp_statusText r,
               headers = resp_headers r\<rparr>
        \<and> length (errorLog (snd (request p cfg url options useCache cacheTTL w))) =
            length (errorLog w) + 2"
proof -
  let ?U = "resolveUrl cfg url"
  let ?K = "getCacheKey p ?U options"
  have eq: "request p cfg url options useCache cacheTTL w =
      request_loop p cfg ?U options useCache ?K cacheTTL 0 None w"
    using assms(1) by (rule request_miss)
  from assms(2) have "int 0 \<le> retries cfg" by simp
  from request_loop_step_failure [OF this assms(3), of useCache ?K cacheTTL None]
  obtain e1 w1 where s1:
    "request_loop p cfg ?U options useCache ?K cacheTTL 0 None w =
       request_loop p cfg ?U options useCache ?K cacheTTL (Suc 0) (Some e1) w1"
    "length (fetch_calls w1) = Suc (length (fetch_calls w))"
    "length (errorLog w1) = Suc (length (errorLog w))"
    by auto
  from assms(2) have a1: "int (Suc 0) \<le> retries cfg" by simp
  from assms(4) s1(2)
  have "\<not> succeeds cfg (fetch p (length (fetch_calls w1)) ?U (fetchInit options))" by simp
  from request_loop_step_failure [OF a1 this, of useCache ?K cacheTTL "Some e1"]
  obtain e2 w2 where s2:
    "request_loop p cfg ?U options useCache ?K cacheTTL (Suc 0) (Some e1) w1 =
       request_loop p cfg ?U options useCache ?K cacheTTL (Suc (Suc 0)) (Some e2) w2"
    "length (fetch_calls w2) = Suc (length (fetch_calls w1))"
    "length (errorLog w2) = Suc (length (errorLog w1))"
    by auto
  from assms(2) have a2: "int (Suc (Suc 0)) \<le> retries cfg" by simp
  from assms(5) s1(2) s2(2)
  have f2: "fetch p (length (fetch_calls w2)) ?U (fetchInit options) = Responds l r"
    by simp
  note s3 = request_loop_step_success [OF a2 f2 assms(6-8), of useCache ?K cacheTTL "Some e2"]
  from eq s1 s2 s3 show ?thesis by simp
qed

text \<open>
  A successful cacheable GET that went to the transport stores its data under the call's
  key, stamped with the time of its return; a repetition of the call while the entry is
  within its TTL is answered from the cache.
\<close>

corollary repeated_get_served_from_cache:
  assumes "init_method options = Some ''GET''"
    and "\<not> cache_hit p cfg url options True w"
    and "request p cfg url options True ttl w = (Inr r, w1)"
    and "cache w2 = cache w1" and "now w2 - now w1 < ttl"
  shows "request p cfg url options True ttl' w2 =
           (Inr \<lparr>data = data r, status = 200, statusText = ''OK (Cached)'', headers = []\<rparr>, w2)"
proof -
  let ?K = "getCacheKey p (resolveUrl cfg url) options"
  from assms(2,3) have "request_loop p cfg (resolveUrl cfg url) options True ?K ttl 0 None w = (Inr r, w1)"
    by (simp add: request_miss)
  with assms(1) have "map_of (cache w1) ?K = Some \<lparr>c_data = data r, c_timestamp = now w1, c_ttl = ttl\<rparr>"
    by (simp add: request_loop_stores)
  with assms(1,4,5) have hit: "cache_hit p cfg url options True w2"
    and entry: "map_of (cache w2) ?K = Some \<lparr>c_data = data r, c_timestamp = now w1, c_ttl = ttl\<rparr>"
    by (simp_all add: cache_hit_def isCacheValid_def)
  from request_hit [OF hit, of ttl'] entry show ?thesis by auto
qed

subsection \<open>The retry loop\<close>

text \<open>
  Claim C2. With \<open>retries = N\<close>, \<open>N \<ge> 0\<close>, and a transport none of whose invocations lets
  the attempt succeed, a call that reaches the transport (one that is not answered from the
  cache) invokes it exactly \<open>N + 1\<close> times, each time with the same URL and options, and
  then fails.
\<close>

theorem retry_exhaustion_count:
  assumes "0 \<le> retries cfg"
    and "\<not> cache_hit p cfg url options useCache w"
    and "\<forall>i. \<not> succeeds cfg (fetch p i (resolveUrl cfg url) (fetchInit options))"
  shows "isl (fst (request p cfg url options useCache cacheTTL w))
       \<and> fetch_calls (snd (request p cfg url options useCache cacheTTL w)) =
           fetch_calls w @ replicate (nat (retries cfg) + 1) (resolveUrl cfg url, fetchInit options)
       \<and> length (fetch_calls (snd (request p cfg url options useCache cacheTTL w))) =
           length (fetch_calls w) + (nat (retries cfg) + 1)"
proof -
  let ?L = "request_loop p cfg (resolveUrl cfg url) options useCache
              (getCacheKey p (resolveUrl cfg url) options) cacheTTL 0 None w"
  have eq: "request p cfg url options useCache cacheTTL w = ?L"
    using assms(2) by (rule request_miss)
  have failed: "isl (fst ?L)"
    using assms(3) by (rule request_loop_all_fail)
  from request_loop_trace [of p cfg "resolveUrl cfg url" options useCache
      "getCacheKey p (resolveUrl cfg url) options" cacheTTL 0 None w]
  obtain k where
    calls: "fetch_calls (snd ?L) = fetch_calls w @ replicate k (resolveUrl cfg url, fetchInit options)"
    and last: "isl (fst ?L) \<longrightarrow> int 0 \<le> retries cfg \<longrightarrow> int (0 + k) = retries cfg + 1"
    by blast
  from last failed assms(1) have "k = nat (retries cfg) + 1" by simp
  with calls failed eq show ?thesis by simp
qed

theorem retry_exhaustion_count_witness:
  "isl (fst (request dead_platform example_config ''/models'' get_options True defaultTTL (fresh 0)))
   \<and> length (fetch_calls (snd (request dead_platform example_config ''/models'' get_options True
                 defaultTTL (fresh 0)))) = 4"
  using retry_exhaustion_count [of example_config dead_platform "''/models''" get_options True
      "fresh 0" defaultTTL]
  by (simp add: example_config_def new_ApiClient_def cache_hit_def isCacheValid_def fresh_def
      succeeds_def dead_platform_def)

text \<open>
  Claim C3, as stated, is that the delay waited after a failed attempt \<open>i \<le> retries - 1\<close>
  equals \<open>retryDelay * 2 ^ i\<close>. The code asks for that delay, but the platform's timers run
  for it only when it lies between 1 and \<open>2^31 - 1\<close> ms. Amended: after a failed attempt
  \<open>a < retries\<close> the \<open>catch\<close> clause asks \<open>delay\<close> for \<open>retryDelay * 2 ^ a\<close> and for nothing
  else, and when that value is between 1 and \<open>2^31 - 1\<close> the clock has moved on by
  exactly that much when the clause is left. Over a whole call that reaches the
  transport and makes \<open>k\<close> attempts there are \<open>k - 1\<close> waits, one after each attempt but the
  last, the one after attempt \<open>i\<close> asked to be \<open>retryDelay * 2 ^ i\<close>, and the call lasts at
  least as long as these waits together. When the call fails, its last attempt is attempt
  \<open>retries\<close>, so every failed attempt \<open>i \<le> retries - 1\<close> is followed by its wait; when it
  succeeds, the last attempt is the successful one.
\<close>

theorem backoff_growth:
  assumes "\<not> cache_hit p cfg url options useCache w"
  shows "(int a < retries cfg \<longrightarrow>
            sleeps (on_failure cfg fullUrl a e v) = sleeps v @ [retryDelay cfg * 2 ^ a])
       \<and> (int a < retries cfg \<and> 1 \<le> retryDelay cfg * 2 ^ a \<and> retryDelay cfg * 2 ^ a \<le> 2147483647
            \<longrightarrow> now (on_failure cfg fullUrl a e v) = now v + retryDelay cfg * 2 ^ a)
       \<and> (\<exists>k. length (fetch_calls (snd (request p cfg url options useCache cacheTTL w))) =
               length (fetch_calls w) + k
           \<and> sleeps (snd (request p cfg url options useCache cacheTTL w)) =
               sleeps w @ map (\<lambda>i. retryDelay cfg * 2 ^ i) [0 ..< k - 1]
           \<and> now w + (\<Sum>i\<leftarrow>[0 ..< k - 1]. timer_wait (retryDelay cfg * 2 ^ i))
               \<le> now (snd (request p cfg url options useCache cacheTTL w))
           \<and> (isl (fst (request p cfg url options useCache cacheTTL w)) \<longrightarrow> 0 \<le> retries cfg
                \<longrightarrow> int k = retries cfg + 1))"
proof -
  let ?L = "request_loop p cfg (resolveUrl cfg url) options useCache
              (getCacheKey p (resolveUrl cfg url) options) cacheTTL 0 None w"
  have eq: "request p cfg url options useCache cacheTTL w = ?L"
    using assms by (rule request_miss)
  from request_loop_trace [of p cfg "resolveUrl cfg url" options useCache
      "getCacheKey p (resolveUrl cfg url) options" cacheTTL 0 None w]
  obtain k where
    calls: "fetch_calls (snd ?L) = fetch_calls w @ replicate k (resolveUrl cfg url, fetchInit options)"
    and sl: "sleeps (snd ?L) = sleeps w @ map (\<lambda>i. retryDelay cfg * 2 ^ i) [0 ..< 0 + k - 1]"
    and last: "isl (fst ?L) \<longrightarrow> int 0 \<le> retries cfg \<longrightarrow> int (0 + k) = retries cfg + 1"
    by blast
  from request_loop_waited [of w p cfg "resolveUrl cfg url" options useCache
      "getCacheKey p (resolveUrl cfg url) options" cacheTTL 0 None] sl
  have waited: "now w + (\<Sum>i\<leftarrow>[0 ..< k - 1]. timer_wait (retryDelay cfg * 2 ^ i)) \<le> now (snd ?L)"
    by (simp add: comp_def)
  from calls sl last waited eq
  have "\<exists>k. length (fetch_calls (snd (request p cfg url options useCache cacheTTL w))) =
               length (fetch_calls w) + k
           \<and> sleeps (snd (request p cfg url options useCache cacheTTL w)) =
               sleeps w @ map (\<lambda>i. retryDelay cfg * 2 ^ i) [0 ..< k - 1]
           \<and> now w + (\<Sum>i\<leftarrow>[0 ..< k - 1]. timer_wait (retryDelay cfg * 2 ^ i))
               \<le> now (snd (request p cfg url options useCache cacheTTL w))
           \<and> (isl (fst (request p cfg url options useCache cacheTTL w)) \<longrightarrow> 0 \<le> retries cfg
                \<longrightarrow> int k = retries cfg + 1)"
    by (intro exI [of _ k]) simp
  then show ?thesis by (simp add: on_failure_now timer_wait_in_range)
qed

theorem backoff_growth_witness:
  "\<not> cache_hit (flaky_platform 2) example_config ''/models'' get_options True (fresh 0)
   \<and> sleeps (on_failure example_config ''http://api.test/models'' 0
         \<lparr>err_name = ''TypeError'', err_message = ''Failed to fetch''\<rparr> (fresh 5)) = [1000]
   \<and> now (on_failure example_config ''http://api.test/models'' 0
         \<lparr>err_name = ''TypeError'', err_message = ''Failed to fetch''\<rparr> (fresh 5)) = 1005
   \<and> sleeps (snd (request (flaky_platform 2) example_config ''/models'' get_options True
                 defaultTTL (fresh 0))) = [1000, 2000]
   \<and> 3000 \<le> now (snd (request (flaky_platform 2) example_config ''/models'' get_options True
                 defaultTTL (fresh 0)))"
proof -
  let ?w = "snd (request (flaky_platform 2) example_config ''/models'' get_options True
                   defaultTTL (fresh 0))"
  have miss: "\<not> cache_hit (flaky_platform 2) example_config ''/models'' get_options True (fresh 0)"
    by (simp add: cache_hit_def isCacheValid_def fresh_def)
  have cfg: "retries example_config = 3" "retryDelay example_config = 1000"
    by (simp_all add: example_config_def new_ApiClient_def)
  note growth = backoff_growth [OF miss, where a = 0 and v = "fresh 5"
      and fullUrl = "''http://api.test/models''" and cacheTTL = defaultTTL
      and e = "\<lparr>err_name = ''TypeError'', err_message = ''Failed to fetch''\<rparr>"]
  from growth have first:
    "sleeps (on_failure example_config ''http://api.test/models'' 0
       \<lparr>err_name = ''TypeError'', err_message = ''Failed to fetch''\<rparr> (fresh 5)) = [1000]"
    "now (on_failure example_config ''http://api.test/models'' 0
       \<lparr>err_name = ''TypeError'', err_message = ''Failed to fetch''\<rparr> (fresh 5)) = 1005"
    by (simp_all add: cfg fresh_def)
  from growth obtain k where
    k: "length (fetch_calls ?w) = length (fetch_calls (fresh 0)) + k"
    and sl: "sleeps ?w = sleeps (fresh 0) @ map (\<lambda>i. retryDelay example_config * 2 ^ i) [0 ..< k - 1]"
    and wt: "now (fresh 0) + (\<Sum>i\<leftarrow>[0 ..< k - 1]. timer_wait (retryDelay example_config * 2 ^ i))
               \<le> now ?w"
    by blast
  have "length (fetch_calls ?w) = 3"
    by (simp add: run_defs flaky_platform_def created_def)
  with k have "k = 3" by (simp add: fresh_def)
  moreover have "[0 ..< 3 - 1] = [0, Suc 0]" by (simp add: upt_rec)
  ultimately show ?thesis
    using sl wt miss first by (simp add: fresh_def cfg timer_wait_def TIMEOUT_MAX_def)
qed

text \<open>
  Claim C3 as stated fails beyond the range of the timers. A client with
  \<open>retryDelay = 2^31\<close> and one retry, refused twice after 5 ms: the \<open>catch\<close> clause asks for
  \<open>2^31\<close> ms after attempt 0, the clock moves on by 1, and the whole call is over at time
  11.
\<close>

theorem backoff_growth_counterexample:
  "retryDelay patient_config * 2 ^ 0 = 2147483648
   \<and> sleeps (on_failure patient_config ''http://api.test/models'' 0
         \<lparr>err_name = ''TypeError'', err_message = ''Failed to fetch''\<rparr> (fresh 5)) = [2147483648]
   \<and> now (on_failure patient_config ''http://api.test/models'' 0
         \<lparr>err_name = ''TypeError'', err_message = ''Failed to fetch''\<rparr> (fresh 5)) = 5 + 1
   \<and> sleeps (snd (request dead_platform patient_config ''/models'' get_options False defaultTTL
                  (fresh 0))) = [2147483648]
   \<and> now (snd (request dead_platform patient_config ''/models'' get_options False defaultTTL
                  (fresh 0))) = 5 + 1 + 5"
  by (simp add: run_defs patient_config_def dead_platform_def)

text \<open>
  Claim C7. The \<open>catch\<close> clause pushes one report on the error log, stamped with the time
  at which the attempt failed, whether or not it then decides to wait and retry; so a
  call that reaches the transport leaves as many new reports as it had failed attempts
  (all its attempts, less the last one when the call returns a response). In particular,
  with \<open>retries \<ge> 2\<close>, two failing invocations followed by an \<open>ok\<close> response that decodes
  yield that response and exactly two new reports.
\<close>

theorem failed_attempts_are_reported:
  "errorLog (on_failure cfg fullUrl a e w0) =
     errorLog w0 @
       [if err_name e = ''AbortError''
        then \<lparr>code = ''API_TIMEOUT'', message = ''Request timeout: '' @ fullUrl,
              details = Details a None, timestamp = now w0\<rparr>
        else \<lparr>code = ''API_ERROR'', message = ''Request failed: '' @ fullUrl,
              details = Details a (Some (err_message e)), timestamp = now w0\<rparr>]
   \<and> (\<not> cache_hit p cfg url options useCache w \<longrightarrow>
        length (errorLog (snd (request p cfg url options useCache cacheTTL w)))
          + (if isl (fst (request p cfg url options useCache cacheTTL w)) then 0 else 1) =
        length (errorLog w)
          + (length (fetch_calls (snd (request p cfg url options useCache cacheTTL w)))
             - length (fetch_calls w)))
   \<and> (\<not> cache_hit p cfg url options useCache w \<and> 2 \<le> retries cfg
        \<and> \<not> succeeds cfg (fetch p (length (fetch_calls w)) (resolveUrl cfg url) (fetchInit options))
        \<and> \<not> succeeds cfg (fetch p (length (fetch_calls w) + 1) (resolveUrl cfg url) (fetchInit options))
        \<and> fetch p (length (fetch_calls w) + 2) (resolveUrl cfg url) (fetchInit options) = Responds l r
        \<and> int l < timeout cfg \<and> resp_ok r \<and> resp_json r = Body d \<longrightarrow>
        fst (request p cfg url options useCache cacheTTL w) =
          Inr \<lparr>data = d, status = resp_status r, statusText = resp_statusText r,
               headers = resp_headers r\<rparr>
        \<and> length (errorLog (snd (request p cfg url options useCache cacheTTL w))) =
            length (errorLog w) + 2)"
  using on_failure_errorLog [of cfg fullUrl a e w0]
    request_report_count [of p cfg url options useCache w cacheTTL]
    request_two_failures_then_success [of p cfg url options useCache w l r d cacheTTL]
  by blast

theorem failed_attempts_are_reported_witness:
  "fst (request (flaky_platform 2) example_config ''/models'' get_options True defaultTTL (fresh 0)) =
     Inr \<lparr>data = JNum 42, status = 201, statusText = ''Created'', headers = [(''etag'', ''7'')]\<rparr>
   \<and> length (errorLog (snd (request (flaky_platform 2) example_config ''/models'' get_options True
                 defaultTTL (fresh 0)))) = 2"
  using failed_attempts_are_reported [of example_config "''u''" 0
      "\<lparr>err_name = ''E'', err_message = ''m''\<rparr>" "fresh 0" "flaky_platform 2" "''/models''"
      get_options True "fresh 0" defaultTTL 7 created "JNum 42"]
  by (simp add: cache_hit_def isCacheValid_def fresh_def example_config_def new_ApiClient_def
      succeeds_def flaky_platform_def created_def)

text \<open>
  Claim C8. When a call with \<open>retries = N \<ge> 0\<close> that reaches the transport fails, the error
  it throws is the one of its last attempt, invocation \<open>N\<close> of the call: an \<open>AbortError\<close> when
  that invocation ran into the deadline, a \<open>TypeError\<close> with the transport's message when it
  was rejected, and an \<open>Error\<close> whose message is \<open>HTTP <status>: <statusText>\<close> when it was
  answered with a status that is not \<open>ok\<close>. The three names differ, so the caller can tell
  the kinds apart.
\<close>

theorem exhausted_call_throws_last_failure:
  assumes "0 \<le> retries cfg"
    and "\<not> cache_hit p cfg url options useCache w"
    and "fst (request p cfg url options useCache cacheTTL w) = Inl e"
    and "b = fetch p (length (fetch_calls w) + nat (retries cfg)) (resolveUrl cfg url) (fetchInit options)"
  shows "(times_out cfg b \<longrightarrow> e = \<lparr>err_name = ''AbortError'', err_message = abortMessage p\<rparr>)
       \<and> (\<forall>l m. b = Rejects l m \<and> int l < timeout cfg
             \<longrightarrow> e = \<lparr>err_name = ''TypeError'', err_message = m\<rparr>)
       \<and> (\<forall>l r. b = Responds l r \<and> int l < timeout cfg \<and> \<not> resp_ok r
             \<longrightarrow> e = \<lparr>err_name = ''Error'',
                       err_message = ''HTTP '' @ number_toString (resp_status r) @ '': ''
                                       @ resp_statusText r\<rparr>)"
proof -
  let ?U = "resolveUrl cfg url"
  let ?K = "getCacheKey p ?U options"
  have "fst (request_loop p cfg ?U options useCache ?K cacheTTL 0 None w) = Inl e"
    using assms(2,3) by (simp add: request_miss)
  with assms(1) request_loop_last_error [of 0 cfg p ?U options useCache ?K cacheTTL None w e]
  have "\<exists>w0. length (fetch_calls w0) = length (fetch_calls w) + nat (retries cfg)
    \<and> fst (attempt_once p cfg ?U options useCache ?K cacheTTL w0) = Inl e"
    by simp
  then obtain w0 where len: "length (fetch_calls w0) = length (fetch_calls w) + nat (retries cfg)"
    and att: "fst (attempt_once p cfg ?U options useCache ?K cacheTTL w0) = Inl e"
    by blast
  from assms(4) len have "b = fetch p (length (fetch_calls w0)) ?U (fetchInit options)"
    by simp
  from attempt_once_error [OF att this] show ?thesis .
qed

theorem exhausted_call_throws_last_failure_witness:
  "fst (request dead_platform example_config ''/models'' get_options True defaultTTL (fresh 0)) =
     Inl \<lparr>err_name = ''TypeError'', err_message = ''Failed to fetch''\<rparr>
   \<and> fst (request unavailable_platform example_config ''/models'' get_options True defaultTTL
            (fresh 0)) =
     Inl \<lparr>err_name = ''Error'', err_message = ''HTTP 503: Service Unavailable''\<rparr>
   \<and> fst (request stalled_platform example_config ''/models'' get_options True defaultTTL
            (fresh 0)) =
     Inl \<lparr>err_name = ''AbortError'', err_message = ''The operation was aborted.''\<rparr>"
proof -
  let ?U = "resolveUrl example_config ''/models''"
  let ?r1 = "request dead_platform example_config ''/models'' get_options True defaultTTL (fresh 0)"
  let ?r2 = "request unavailable_platform example_config ''/models'' get_options True defaultTTL
               (fresh 0)"
  let ?r3 = "request stalled_platform example_config ''/models'' get_options True defaultTTL
               (fresh 0)"
  have n: "0 \<le> retries example_config"
    by (simp add: example_config_def new_ApiClient_def)
  have t: "timeout example_config = 30000"
    by (simp add: example_config_def new_ApiClient_def)
  have miss: "\<not> cache_hit q example_config ''/models'' get_options True (fresh 0)" for q
    by (simp add: cache_hit_def isCacheValid_def fresh_def)
  have "isl (fst ?r1)"
    using request_loop_all_fail [of example_config dead_platform ?U get_options True
        "getCacheKey dead_platform ?U get_options" defaultTTL 0 None "fresh 0"]
    by (simp add: request_miss [OF miss] succeeds_def dead_platform_def)
  then obtain e1 where e1: "fst ?r1 = Inl e1" by (cases "fst ?r1") auto
  have "isl (fst ?r2)"
    using request_loop_all_fail [of example_config unavailable_platform ?U get_options True
        "getCacheKey unavailable_platform ?U get_options" defaultTTL 0 None "fresh 0"]
    by (simp add: request_miss [OF miss] succeeds_def unavailable_platform_def unavailable_def)
  then obtain e2 where e2: "fst ?r2 = Inl e2" by (cases "fst ?r2") auto
  have "isl (fst ?r3)"
    using request_loop_all_fail [of example_config stalled_platform ?U get_options True
        "getCacheKey stalled_platform ?U get_options" defaultTTL 0 None "fresh 0"]
    by (simp add: request_miss [OF miss] succeeds_def stalled_platform_def t)
  then obtain e3 where e3: "fst ?r3 = Inl e3" by (cases "fst ?r3") auto
  have s: "number_toString 503 = ''503''"
    by (simp add: number_toString_def nat_toString.simps digit_char_def)
  from exhausted_call_throws_last_failure [OF n miss e1 refl]
  have "e1 = \<lparr>err_name = ''TypeError'', err_message = ''Failed to fetch''\<rparr>"
    by (simp add: dead_platform_def t)
  moreover from exhausted_call_throws_last_failure [OF n miss e2 refl]
  have "e2 = \<lparr>err_name = ''Error'', err_message = ''HTTP 503: Service Unavailable''\<rparr>"
    by (simp add: unavailable_platform_def unavailable_def t s)
  moreover from exhausted_call_throws_last_failure [OF n miss e3 refl]
  have "e3 = \<lparr>err_name = ''AbortError'', err_message = ''The operation was aborted.''\<rparr>"
    by (simp add: stalled_platform_def times_out_def t fresh_def example_config_def new_ApiClient_def)
  ultimately show ?thesis using e1 e2 e3 by simp
qed

subsection \<open>The deadline of an attempt\<close>

text \<open>
  Claim C9. An attempt whose transport has not settled when the deadline passes throws the
  platform's \<open>AbortError\<close>, and the \<open>catch\<close> clause reports it under the code
  \<open>API_TIMEOUT\<close>, not \<open>API_ERROR\<close>.
\<close>

theorem timeout_is_classified_as_timeout:
  assumes "times_out cfg (fetch p (length (fetch_calls w)) fullUrl (fetchInit options))"
  shows "fst (attempt_once p cfg fullUrl options useCache cacheKey cacheTTL w) =
           Inl \<lparr>err_name = ''AbortError'', err_message = abortMessage p\<rparr>
       \<and> errorLog (on_failure cfg fullUrl a
             \<lparr>err_name = ''AbortError'', err_message = abortMessage p\<rparr>
             (snd (attempt_once p cfg fullUrl options useCache cacheKey cacheTTL w))) =
           errorLog w @
             [\<lparr>code = ''API_TIMEOUT'', message = ''Request timeout: '' @ fullUrl,
               details = Details a None, timestamp = now w + max 0 (timeout cfg)\<rparr>]"
  using attempt_once_timeout [OF assms, of useCache cacheKey cacheTTL]
    attempt_once_errorLog [of p cfg fullUrl options useCache cacheKey cacheTTL w]
  by (simp add: on_failure_errorLog)

theorem timeout_is_classified_as_timeout_witness:
  "times_out example_config (fetch stalled_platform 0 ''http://api.test/models'' (fetchInit get_options))
   \<and> fst (attempt_once stalled_platform example_config ''http://api.test/models'' get_options
        True ''GET:http://api.test/models:'' defaultTTL (fresh 0)) =
       Inl \<lparr>err_name = ''AbortError'', err_message = ''The operation was aborted.''\<rparr>
   \<and> errorLog (on_failure example_config ''http://api.test/models'' 0
         \<lparr>err_name = ''AbortError'', err_message = ''The operation was aborted.''\<rparr>
         (snd (attempt_once stalled_platform example_config ''http://api.test/models'' get_options
            True ''GET:http://api.test/models:'' defaultTTL (fresh 0)))) =
       [\<lparr>code = ''API_TIMEOUT'', message = ''Request timeout: http://api.test/models'',
         details = Details 0 None, timestamp = 30000\<rparr>]"
  using timeout_is_classified_as_timeout [of example_config stalled_platform "fresh 0"
      "''http://api.test/models''" get_options True "''GET:http://api.test/models:''" defaultTTL 0]
  by (simp add: times_out_def stalled_platform_def fresh_def example_config_def new_ApiClient_def)

text \<open>
  Claim C5 says that no deadline timer is left pending when an attempt has ended. The code
  reaches \<open>clearTimeout\<close> only when \<open>fetch\<close> has resolved: when the transport rejects before
  the deadline (lemma \<open>attempt_once_rejected_timer\<close>), the timer stays in the queue until it
  is due. Here a client with \<open>retries = 0\<close> and the default timeout of 30000 ms issues one
  request that is refused after 5 ms: the call has failed at time 5 and timer 0, due at
  30000, is still pending.
\<close>

theorem deadline_timer_pending_after_network_error:
  "timers (snd (request dead_platform (new_ApiClient ''http://api.test'' None (Some 0) None)
                  ''/models'' get_options False defaultTTL (fresh 0))) = [(0, 30000)]
   \<and> now (snd (request dead_platform (new_ApiClient ''http://api.test'' None (Some 0) None)
                  ''/models'' get_options False defaultTTL (fresh 0))) = 5"
  by (simp add: run_defs dead_platform_def)

end
